theory Spec2Isabelle
  imports Complex_Main "HOL-Library.Word"
begin

section \<open>Data model of SceneManager.cpp\<close>

text \<open>
  The scene manager keeps a fixed array of texture records with a counter of the used
  entries, a growing vector of materials and a pointer to a shader manager. It talks to
  three libraries: OpenGL (textures and texture units), stb_image (decoding) and GLM
  (vectors and matrices).

  \<^item> \<open>float\<close> is the type parameter \<open>'f\<close>: the scene manager only passes floats on, the
    arithmetic on them happens inside GLM.
  \<^item> \<open>int\<close> is \<open>int\<close>. The arithmetic on it is the increment of counters and
    \<open>GL_TEXTURE0 + i\<close>, on values that stay below the size of the texture array; the
    theorems that need it assume that this size fits into 31 bits (\<open>registry_ok\<close>).
  \<^item> \<open>GLuint\<close> and \<open>GLenum\<close> are 32-bit words.
\<close>

type_synonym GLuint = "32 word"
type_synonym GLenum = "32 word"

datatype 'f vec2 = Vec2 'f 'f
datatype 'f vec3 = Vec3 'f 'f 'f
datatype 'f vec4 = Vec4 'f 'f 'f 'f
datatype 'f mat4 = Mat4 "'f vec4" "'f vec4" "'f vec4" "'f vec4"

text \<open>
  \<open>OBJECT_MATERIAL\<close> and \<open>TEXTURE_INFO\<close> are declared in SceneManager.h; the fields are
  the ones SceneManager.cpp reads and writes. Both structs have a field \<open>tag\<close>: below,
  \<open>tag\<close> is the field of \<open>TEXTURE_INFO\<close> and \<open>OBJECT_MATERIAL.tag\<close> the material's.
\<close>

record 'f OBJECT_MATERIAL =
  diffuseColor :: "'f vec3"
  specularColor :: "'f vec3"
  shininess :: 'f
  tag :: string

record TEXTURE_INFO =
  tag :: string
  ID :: GLuint

section \<open>The shader manager\<close>

text \<open>
  A uniform value remembers which setter wrote it.
\<close>

datatype 'f uniform =
    Mat4Value "'f mat4"
  | IntValue int
  | BoolValue bool
  | FloatValue 'f
  | Vec2Value "'f vec2"
  | Vec3Value "'f vec3"
  | Vec4Value "'f vec4"
  | Sampler2DValue int

type_synonym 'f ShaderManager = "string \<Rightarrow> 'f uniform option"

text \<open>
  Modelled from the spec: the class ShaderManager (ShaderManager.h and ShaderManager.cpp
  are not among the sources). The spec's shader contract is a set of named-uniform
  setters, one per value type, addressed by string names; a setter stores its value under
  its name and touches no other uniform.
\<close>

definition setUniform :: "string \<Rightarrow> 'f uniform \<Rightarrow> 'f ShaderManager \<Rightarrow> 'f ShaderManager" where
  "setUniform name v sh = sh(name \<mapsto> v)"

definition setMat4Value :: "string \<Rightarrow> 'f mat4 \<Rightarrow> 'f ShaderManager \<Rightarrow> 'f ShaderManager" where
  "setMat4Value name v = setUniform name (Mat4Value v)"

definition setIntValue :: "string \<Rightarrow> int \<Rightarrow> 'f ShaderManager \<Rightarrow> 'f ShaderManager" where
  "setIntValue name v = setUniform name (IntValue v)"

definition setBoolValue :: "string \<Rightarrow> bool \<Rightarrow> 'f ShaderManager \<Rightarrow> 'f ShaderManager" where
  "setBoolValue name v = setUniform name (BoolValue v)"

definition setFloatValue :: "string \<Rightarrow> 'f \<Rightarrow> 'f ShaderManager \<Rightarrow> 'f ShaderManager" where
  "setFloatValue name v = setUniform name (FloatValue v)"

definition setVec2Value :: "string \<Rightarrow> 'f vec2 \<Rightarrow> 'f ShaderManager \<Rightarrow> 'f ShaderManager" where
  "setVec2Value name v = setUniform name (Vec2Value v)"

definition setVec3Value :: "string \<Rightarrow> 'f vec3 \<Rightarrow> 'f ShaderManager \<Rightarrow> 'f ShaderManager" where
  "setVec3Value name v = setUniform name (Vec3Value v)"

definition setVec4Value :: "string \<Rightarrow> 'f vec4 \<Rightarrow> 'f ShaderManager \<Rightarrow> 'f ShaderManager" where
  "setVec4Value name v = setUniform name (Vec4Value v)"

definition setSampler2DValue :: "string \<Rightarrow> int \<Rightarrow> 'f ShaderManager \<Rightarrow> 'f ShaderManager" where
  "setSampler2DValue name v = setUniform name (Sampler2DValue v)"

text \<open>The names of the uniforms, from the anonymous namespace at the top of the file.\<close>

definition g_ModelName :: string where "g_ModelName = ''model''"
definition g_ColorValueName :: string where "g_ColorValueName = ''objectColor''"
definition g_TextureValueName :: string where "g_TextureValueName = ''objectTexture''"
definition g_UseTextureName :: string where "g_UseTextureName = ''bUseTexture''"
definition g_UseLightingName :: string where "g_UseLightingName = ''bUseLighting''"

section \<open>The libraries' side of the state\<close>

text \<open>
  Calls into OpenGL and stb_image and lines written to \<open>std::cout\<close> are recorded in
  the order the program makes them.
\<close>

datatype event =
    StbiSetFlipVerticallyOnLoad bool
  | StbiLoad string
  | StbiImageFree
  | GlGenTextures int GLuint
  | GlDeleteTextures int GLuint
  | GlBindTexture GLenum GLuint
  | GlActiveTexture GLenum
  | GlTexParameteri GLenum GLenum int
  | GlTexImage2D GLenum int int int int int GLenum GLenum
  | GlGenerateMipmap GLenum
  | CoutLoaded string int int int
  | CoutNotImplemented int
  | CoutCouldNotLoad string

text \<open>What \<open>stbi_load\<close> hands back for a file it could decode.\<close>

record stbi_image =
  width :: int
  height :: int
  colorChannels :: int

type_synonym addr = nat

text \<open>
  The whole state: the members of the scene manager (\<open>m_\<close>), the shader manager objects
  by address (\<open>m_pShaderManager\<close> is \<open>None\<close> for \<open>NULL\<close>), and the OpenGL context: the
  names \<open>glGenTextures\<close> will hand out, the active texture unit, the texture bound to
  \<open>GL_TEXTURE_2D\<close> on every unit, and the number of texture units of the backend.
\<close>

record 'f state =
  m_pShaderManager :: "addr option"
  m_textureIDs :: "TEXTURE_INFO list"
  m_loadedTextures :: int
  m_objectMaterials :: "'f OBJECT_MATERIAL list"
  shaders :: "addr \<Rightarrow> 'f ShaderManager"
  events :: "event list"
  gl_names :: "nat \<Rightarrow> GLuint"
  gl_generated :: nat
  gl_active_texture :: GLenum
  gl_texture_binding_2d :: "GLenum \<Rightarrow> GLuint"
  gl_max_texture_units :: nat

datatype error = OutOfBounds | NullDereference

section \<open>FindMaterial\<close>

text \<open>
  The loop of \<open>FindMaterial\<close> over \<open>(index, bFound, material)\<close>. The index is compared
  with \<open>size()\<close>, so the element read is always inside the vector.
\<close>

function FindMaterial_while ::
  "'f OBJECT_MATERIAL list \<Rightarrow> string \<Rightarrow> nat \<times> bool \<times> 'f OBJECT_MATERIAL
    \<Rightarrow> nat \<times> bool \<times> 'f OBJECT_MATERIAL" where
  "FindMaterial_while mats t (index, bFound, material) =
     (if index < length mats \<and> bFound = False then
        (if OBJECT_MATERIAL.tag (mats ! index) = t then
           FindMaterial_while mats t
             (index, True,
              material\<lparr>diffuseColor := diffuseColor (mats ! index),
                       specularColor := specularColor (mats ! index),
                       shininess := shininess (mats ! index)\<rparr>)
         else FindMaterial_while mats t (Suc index, bFound, material))
      else (index, bFound, material))"
  by pat_completeness auto
termination
  by (relation "measure (\<lambda>(mats, t, index, bFound, material).
        (if bFound then 0 else Suc (length mats - index)))") auto

definition FindMaterial ::
  "'f state \<Rightarrow> string \<Rightarrow> 'f OBJECT_MATERIAL \<Rightarrow> bool \<times> 'f OBJECT_MATERIAL" where
  "FindMaterial s t material =
     (if length (m_objectMaterials s) = 0 then (False, material)
      else (case FindMaterial_while (m_objectMaterials s) t (0, False, material) of
              (index, bFound, material') \<Rightarrow> (True, material')))"


section \<open>OpenGL and stb_image\<close>

text \<open>
  The constants of the OpenGL headers the file uses. They are integer literals there and
  are converted to \<open>GLenum\<close> where a function takes one.
\<close>

definition GL_TEXTURE_2D :: int where "GL_TEXTURE_2D = 0x0DE1"
definition GL_TEXTURE_WRAP_S :: int where "GL_TEXTURE_WRAP_S = 0x2802"
definition GL_TEXTURE_WRAP_T :: int where "GL_TEXTURE_WRAP_T = 0x2803"
definition GL_TEXTURE_MIN_FILTER :: int where "GL_TEXTURE_MIN_FILTER = 0x2801"
definition GL_TEXTURE_MAG_FILTER :: int where "GL_TEXTURE_MAG_FILTER = 0x2800"
definition GL_REPEAT :: int where "GL_REPEAT = 0x2901"
definition GL_LINEAR :: int where "GL_LINEAR = 0x2601"
definition GL_RGB :: int where "GL_RGB = 0x1907"
definition GL_RGBA :: int where "GL_RGBA = 0x1908"
definition GL_RGB8 :: int where "GL_RGB8 = 0x8051"
definition GL_RGBA8 :: int where "GL_RGBA8 = 0x8058"
definition GL_UNSIGNED_BYTE :: int where "GL_UNSIGNED_BYTE = 0x1401"
definition GL_TEXTURE0 :: int where "GL_TEXTURE0 = 0x84C0"

definition enum :: "int \<Rightarrow> GLenum" where
  "enum c = word_of_int c"

definition record_event :: "event \<Rightarrow> 'f state \<Rightarrow> 'f state" where
  "record_event e s = s\<lparr>events := events s @ [e]\<rparr>"

text \<open>
  \<open>glGenTextures(1, &name)\<close>: the context hands out its next unused texture name.
\<close>

definition glGenTextures :: "'f state \<Rightarrow> GLuint \<times> 'f state" where
  "glGenTextures s =
     (let name = gl_names s (gl_generated s)
      in (name, record_event (GlGenTextures 1 name) (s\<lparr>gl_generated := Suc (gl_generated s)\<rparr>)))"

text \<open>
  \<open>glActiveTexture\<close> selects a texture unit. OpenGL rejects a unit that is not one of
  \<open>GL_TEXTURE0 .. GL_TEXTURE0 + (units - 1)\<close> and then leaves the active unit as it is.
\<close>

definition glActiveTexture :: "GLenum \<Rightarrow> 'f state \<Rightarrow> 'f state" where
  "glActiveTexture texture s =
     (let s' = record_event (GlActiveTexture texture) s
      in if GL_TEXTURE0 \<le> uint texture \<and> uint texture < GL_TEXTURE0 + int (gl_max_texture_units s)
         then s'\<lparr>gl_active_texture := texture\<rparr> else s')"

text \<open>\<open>glBindTexture\<close> binds a texture to a target of the active unit.\<close>

definition glBindTexture :: "GLenum \<Rightarrow> GLuint \<Rightarrow> 'f state \<Rightarrow> 'f state" where
  "glBindTexture target texture s =
     (let s' = record_event (GlBindTexture target texture) s
      in if target = enum GL_TEXTURE_2D
         then s'\<lparr>gl_texture_binding_2d := (gl_texture_binding_2d s)(gl_active_texture s := texture)\<rparr>
         else s')"

definition glTexParameteri :: "GLenum \<Rightarrow> GLenum \<Rightarrow> int \<Rightarrow> 'f state \<Rightarrow> 'f state" where
  "glTexParameteri target pname param = record_event (GlTexParameteri target pname param)"

definition glTexImage2D ::
  "GLenum \<Rightarrow> int \<Rightarrow> int \<Rightarrow> int \<Rightarrow> int \<Rightarrow> int \<Rightarrow> GLenum \<Rightarrow> GLenum \<Rightarrow> 'f state \<Rightarrow> 'f state" where
  "glTexImage2D target level internalformat w h border format type =
     record_event (GlTexImage2D target level internalformat w h border format type)"

definition glGenerateMipmap :: "GLenum \<Rightarrow> 'f state \<Rightarrow> 'f state" where
  "glGenerateMipmap target = record_event (GlGenerateMipmap target)"

section \<open>CreateGLTexture\<close>

text \<open>
  The end of \<open>CreateGLTexture\<close>, after \<open>glTexImage2D\<close>: mipmaps, freeing the image,
  unbinding, and the registration in \<open>m_textureIDs[m_loadedTextures]\<close>. The array has a
  fixed size and the code does not compare the counter with it: a write outside the
  array is \<open>OutOfBounds\<close>.
\<close>

definition CreateGLTexture_register ::
  "GLuint \<Rightarrow> string \<Rightarrow> 'f state \<Rightarrow> error + bool \<times> 'f state" where
  "CreateGLTexture_register textureID t s0 =
     (let s1 = glGenerateMipmap (enum GL_TEXTURE_2D) s0;
          s2 = record_event StbiImageFree s1;
          s3 = glBindTexture (enum GL_TEXTURE_2D) 0 s2;
          n = m_loadedTextures s3
      in if 0 \<le> n \<and> n < int (length (m_textureIDs s3)) then
           (let a1 = (m_textureIDs s3)[nat n := (m_textureIDs s3 ! nat n)\<lparr>ID := textureID\<rparr>];
                a2 = a1[nat n := (a1 ! nat n)\<lparr>tag := t\<rparr>]
            in Inr (True, s3\<lparr>m_textureIDs := a2, m_loadedTextures := n + 1\<rparr>))
         else Inl OutOfBounds)"

text \<open>
  \<open>stbi_load\<close> is a parameter: what the decoder returns for a file name, \<open>None\<close> for
  the null pointer.
\<close>

definition CreateGLTexture ::
  "(string \<Rightarrow> stbi_image option) \<Rightarrow> string \<Rightarrow> string \<Rightarrow> 'f state \<Rightarrow> error + bool \<times> 'f state" where
  "CreateGLTexture stbi_load filename t s0 =
     (let s1 = record_event (StbiSetFlipVerticallyOnLoad True) s0;
          s2 = record_event (StbiLoad filename) s1
      in case stbi_load filename of
           Some img \<Rightarrow>
             (let s3 = record_event (CoutLoaded filename (width img) (height img)
                         (colorChannels img)) s2;
                  textureID = fst (glGenTextures s3);
                  s4 = snd (glGenTextures s3);
                  s5 = glBindTexture (enum GL_TEXTURE_2D) textureID s4;
                  s6 = glTexParameteri (enum GL_TEXTURE_2D) (enum GL_TEXTURE_WRAP_S) GL_REPEAT s5;
                  s7 = glTexParameteri (enum GL_TEXTURE_2D) (enum GL_TEXTURE_WRAP_T) GL_REPEAT s6;
                  s8 = glTexParameteri (enum GL_TEXTURE_2D) (enum GL_TEXTURE_MIN_FILTER) GL_LINEAR s7;
                  s9 = glTexParameteri (enum GL_TEXTURE_2D) (enum GL_TEXTURE_MAG_FILTER) GL_LINEAR s8
              in if colorChannels img = 3 then
                   CreateGLTexture_register textureID t
                     (glTexImage2D (enum GL_TEXTURE_2D) 0 GL_RGB8 (width img) (height img) 0
                        (enum GL_RGB) (enum GL_UNSIGNED_BYTE) s9)
                 else if colorChannels img = 4 then
                   CreateGLTexture_register textureID t
                     (glTexImage2D (enum GL_TEXTURE_2D) 0 GL_RGBA8 (width img) (height img) 0
                        (enum GL_RGBA) (enum GL_UNSIGNED_BYTE) s9)
                 else Inr (False, record_event (CoutNotImplemented (colorChannels img)) s9))
         | None \<Rightarrow> Inr (False, record_event (CoutCouldNotLoad filename) s2))"

section \<open>BindGLTextures and DestroyGLTextures\<close>

text \<open>
  Both loops run \<open>i\<close> from 0 while \<open>i < m_loadedTextures\<close> and read \<open>m_textureIDs[i]\<close>;
  an index outside the array is \<open>OutOfBounds\<close>.
\<close>

function BindGLTextures_for :: "nat \<Rightarrow> 'f state \<Rightarrow> error + 'f state" where
  "BindGLTextures_for i s =
     (if int i < m_loadedTextures s then
        (if i < length (m_textureIDs s) then
           BindGLTextures_for (Suc i)
             (glBindTexture (enum GL_TEXTURE_2D) (ID (m_textureIDs s ! i))
                (glActiveTexture (enum (GL_TEXTURE0 + int i)) s))
         else Inl OutOfBounds)
      else Inr s)"
  by pat_completeness auto
termination
  by (relation "measure (\<lambda>(i, s). nat (m_loadedTextures s - int i))")
    (auto simp: glBindTexture_def glActiveTexture_def record_event_def Let_def)

definition BindGLTextures :: "'f state \<Rightarrow> error + 'f state" where
  "BindGLTextures s = BindGLTextures_for 0 s"

function DestroyGLTextures_for :: "nat \<Rightarrow> 'f state \<Rightarrow> error + 'f state" where
  "DestroyGLTextures_for i s =
     (if int i < m_loadedTextures s then
        (if i < length (m_textureIDs s) then
           (let name = fst (glGenTextures s);
                s' = snd (glGenTextures s)
            in DestroyGLTextures_for (Suc i)
                 (s'\<lparr>m_textureIDs := (m_textureIDs s')[i := (m_textureIDs s' ! i)\<lparr>ID := name\<rparr>]\<rparr>))
         else Inl OutOfBounds)
      else Inr s)"
  by pat_completeness auto
termination
  by (relation "measure (\<lambda>(i, s). nat (m_loadedTextures s - int i))")
    (auto simp: glGenTextures_def record_event_def Let_def)

definition DestroyGLTextures :: "'f state \<Rightarrow> error + 'f state" where
  "DestroyGLTextures s = DestroyGLTextures_for 0 s"

section \<open>FindTextureID and FindTextureSlot\<close>

text \<open>
  The loops over \<open>(result, index, bFound)\<close>. \<open>FindTextureID\<close> returns an \<open>int\<close>: the
  32-bit handle is read as a signed number.
\<close>

function FindTextureID_while ::
  "TEXTURE_INFO list \<Rightarrow> int \<Rightarrow> string \<Rightarrow> int \<times> nat \<times> bool \<Rightarrow> error + int \<times> nat \<times> bool" where
  "FindTextureID_while arr n t (textureID, index, bFound) =
     (if int index < n \<and> bFound = False then
        (if index < length arr then
           (if tag (arr ! index) = t then
              FindTextureID_while arr n t (sint (ID (arr ! index)), index, True)
            else FindTextureID_while arr n t (textureID, Suc index, bFound))
         else Inl OutOfBounds)
      else Inr (textureID, index, bFound))"
  by pat_completeness auto
termination
  by (relation "measure (\<lambda>(arr, n, t, textureID, index, bFound).
        (if bFound then 0 else Suc (nat (n - int index))))") auto

definition FindTextureID :: "'f state \<Rightarrow> string \<Rightarrow> error + int" where
  "FindTextureID s t =
     (case FindTextureID_while (m_textureIDs s) (m_loadedTextures s) t (- 1, 0, False) of
        Inl e \<Rightarrow> Inl e
      | Inr (textureID, index, bFound) \<Rightarrow> Inr textureID)"

function FindTextureSlot_while ::
  "TEXTURE_INFO list \<Rightarrow> int \<Rightarrow> string \<Rightarrow> int \<times> nat \<times> bool \<Rightarrow> error + int \<times> nat \<times> bool" where
  "FindTextureSlot_while arr n t (textureSlot, index, bFound) =
     (if int index < n \<and> bFound = False then
        (if index < length arr then
           (if tag (arr ! index) = t then
              FindTextureSlot_while arr n t (int index, index, True)
            else FindTextureSlot_while arr n t (textureSlot, Suc index, bFound))
         else Inl OutOfBounds)
      else Inr (textureSlot, index, bFound))"
  by pat_completeness auto
termination
  by (relation "measure (\<lambda>(arr, n, t, textureSlot, index, bFound).
        (if bFound then 0 else Suc (nat (n - int index))))") auto

definition FindTextureSlot :: "'f state \<Rightarrow> string \<Rightarrow> error + int" where
  "FindTextureSlot s t =
     (case FindTextureSlot_while (m_textureIDs s) (m_loadedTextures s) t (- 1, 0, False) of
        Inl e \<Rightarrow> Inl e
      | Inr (textureSlot, index, bFound) \<Rightarrow> Inr textureSlot)"

section \<open>The shader state binder\<close>

text \<open>\<open>p->f(...)\<close>: the setter \<open>f\<close> runs on the shader manager at address \<open>p\<close>.\<close>

definition arrow :: "addr \<Rightarrow> ('f ShaderManager \<Rightarrow> 'f ShaderManager) \<Rightarrow> 'f state \<Rightarrow> 'f state" where
  "arrow p f s = s\<lparr>shaders := (shaders s)(p := f (shaders s p))\<rparr>"

text \<open>
  The functions of GLM that \<open>SetTransformations\<close> calls, as parameters: the conversion
  to radians, the three matrix builders and the product of two matrices.
\<close>

record 'f glm =
  glm_radians :: "'f \<Rightarrow> 'f"
  glm_scale :: "'f vec3 \<Rightarrow> 'f mat4"
  glm_rotate :: "'f \<Rightarrow> 'f vec3 \<Rightarrow> 'f mat4"
  glm_translate :: "'f vec3 \<Rightarrow> 'f mat4"
  glm_times :: "'f mat4 \<Rightarrow> 'f mat4 \<Rightarrow> 'f mat4"

definition SetTransformations ::
  "('f::{zero,one}) glm \<Rightarrow> 'f vec3 \<Rightarrow> 'f \<Rightarrow> 'f \<Rightarrow> 'f \<Rightarrow> 'f vec3 \<Rightarrow> 'f state \<Rightarrow> 'f state" where
  "SetTransformations g scaleXYZ XrotationDegrees YrotationDegrees ZrotationDegrees positionXYZ s =
     (let scale = glm_scale g scaleXYZ;
          rotationX = glm_rotate g (glm_radians g XrotationDegrees) (Vec3 1 0 0);
          rotationY = glm_rotate g (glm_radians g YrotationDegrees) (Vec3 0 1 0);
          rotationZ = glm_rotate g (glm_radians g ZrotationDegrees) (Vec3 0 0 1);
          translation = glm_translate g positionXYZ;
          modelView = glm_times g (glm_times g (glm_times g (glm_times g
                        translation rotationZ) rotationY) rotationX) scale
      in case m_pShaderManager s of
           Some p \<Rightarrow> arrow p (setMat4Value g_ModelName modelView) s
         | None \<Rightarrow> s)"

definition SetShaderColor :: "'f \<Rightarrow> 'f \<Rightarrow> 'f \<Rightarrow> 'f \<Rightarrow> 'f state \<Rightarrow> 'f state" where
  "SetShaderColor redColorValue greenColorValue blueColorValue alphaValue s =
     (let currentColor = Vec4 redColorValue greenColorValue blueColorValue alphaValue
      in case m_pShaderManager s of
           Some p \<Rightarrow>
             arrow p (setVec4Value g_ColorValueName currentColor)
               (arrow p (setIntValue g_UseTextureName 0) s)
         | None \<Rightarrow> s)"

definition SetShaderTexture :: "string \<Rightarrow> 'f state \<Rightarrow> error + 'f state" where
  "SetShaderTexture textureTag s =
     (case m_pShaderManager s of
        Some p \<Rightarrow>
          (let s1 = arrow p (setIntValue g_UseTextureName 1) s
           in case FindTextureSlot s1 textureTag of
                Inl e \<Rightarrow> Inl e
              | Inr textureID \<Rightarrow> Inr (arrow p (setSampler2DValue g_TextureValueName textureID) s1))
      | None \<Rightarrow> Inr s)"

definition SetTextureUVScale :: "'f \<Rightarrow> 'f \<Rightarrow> 'f state \<Rightarrow> 'f state" where
  "SetTextureUVScale u v s =
     (case m_pShaderManager s of
        Some p \<Rightarrow> arrow p (setVec2Value ''UVscale'' (Vec2 u v)) s
      | None \<Rightarrow> s)"

text \<open>
  \<open>SetShaderMaterial\<close> declares a local \<open>OBJECT_MATERIAL\<close> without initialising it: its
  string is empty, its floats are whatever the stack holds, the parameter
  \<open>uninitialized\<close>. The shader manager is used without a null check.
\<close>

definition SetShaderMaterial :: "'f OBJECT_MATERIAL \<Rightarrow> string \<Rightarrow> 'f state \<Rightarrow> error + 'f state" where
  "SetShaderMaterial uninitialized materialTag s =
     (if length (m_objectMaterials s) > 0 then
        (let material0 = uninitialized\<lparr>OBJECT_MATERIAL.tag := []\<rparr>;
             bReturn = fst (FindMaterial s materialTag material0);
             material = snd (FindMaterial s materialTag material0)
         in if bReturn = True then
              (case m_pShaderManager s of
                 Some p \<Rightarrow>
                   Inr (arrow p (setFloatValue ''material.shininess'' (shininess material))
                         (arrow p (setVec3Value ''material.specularColor'' (specularColor material))
                           (arrow p (setVec3Value ''material.diffuseColor'' (diffuseColor material)) s)))
               | None \<Rightarrow> Inl NullDereference)
            else Inr s)
      else Inr s)"

text \<open>A sequence of calls of \<open>SetShaderColor\<close> and \<open>SetShaderTexture\<close>, in any order.\<close>

datatype 'f binder_call = CallSetShaderColor 'f 'f 'f 'f | CallSetShaderTexture string

fun run_calls :: "'f binder_call list \<Rightarrow> 'f state \<Rightarrow> error + 'f state" where
  "run_calls [] s = Inr s"
| "run_calls (CallSetShaderColor r g b a # cs) s = run_calls cs (SetShaderColor r g b a s)"
| "run_calls (CallSetShaderTexture t # cs) s =
     (case SetShaderTexture t s of Inl e \<Rightarrow> Inl e | Inr s' \<Rightarrow> run_calls cs s')"

text \<open>
  The texture registry is in order when the counter is inside the array. The array is a
  member of fixed size, so its length fits into an \<open>int\<close>.
\<close>

definition registry_ok :: "'f state \<Rightarrow> bool" where
  "registry_ok s \<longleftrightarrow>
     0 \<le> m_loadedTextures s \<and> m_loadedTextures s \<le> int (length (m_textureIDs s)) \<and>
     length (m_textureIDs s) < 2 ^ 31"

section \<open>Example scenes\<close>

text \<open>
  Concrete values for checking the theorems below at an input. Floats are real numbers
  here, and \<open>glm_real\<close> reads the functions of GLM over the reals: \<open>radians\<close> multiplies
  by \<open>pi / 180\<close>, \<open>scale\<close> and \<open>translate\<close> build the usual matrices from the identity,
  \<open>rotate\<close> is the rotation about the normalised axis, and matrices (four columns) are
  multiplied column by column.
\<close>

fun vec4_plus :: "real vec4 \<Rightarrow> real vec4 \<Rightarrow> real vec4" where
  "vec4_plus (Vec4 a b c d) (Vec4 a' b' c' d') = Vec4 (a + a') (b + b') (c + c') (d + d')"

fun vec4_times :: "real \<Rightarrow> real vec4 \<Rightarrow> real vec4" where
  "vec4_times k (Vec4 a b c d) = Vec4 (k * a) (k * b) (k * c) (k * d)"

fun mat4_apply :: "real mat4 \<Rightarrow> real vec4 \<Rightarrow> real vec4" where
  "mat4_apply (Mat4 c0 c1 c2 c3) (Vec4 x y z w) =
     vec4_plus (vec4_plus (vec4_plus (vec4_times x c0) (vec4_times y c1)) (vec4_times z c2))
       (vec4_times w c3)"

fun mat4_times :: "real mat4 \<Rightarrow> real mat4 \<Rightarrow> real mat4" where
  "mat4_times m (Mat4 c0 c1 c2 c3) =
     Mat4 (mat4_apply m c0) (mat4_apply m c1) (mat4_apply m c2) (mat4_apply m c3)"

fun real_scale :: "real vec3 \<Rightarrow> real mat4" where
  "real_scale (Vec3 x y z) = Mat4 (Vec4 x 0 0 0) (Vec4 0 y 0 0) (Vec4 0 0 z 0) (Vec4 0 0 0 1)"

fun real_translate :: "real vec3 \<Rightarrow> real mat4" where
  "real_translate (Vec3 x y z) =
     Mat4 (Vec4 1 0 0 0) (Vec4 0 1 0 0) (Vec4 0 0 1 0) (Vec4 x y z 1)"

fun real_rotate :: "real \<Rightarrow> real vec3 \<Rightarrow> real mat4" where
  "real_rotate angle (Vec3 x y z) =
     (let l = sqrt (x * x + y * y + z * z);
          ax = x / l; ay = y / l; az = z / l;
          c = cos angle; s = sin angle;
          tx = (1 - c) * ax; ty = (1 - c) * ay; tz = (1 - c) * az
      in Mat4 (Vec4 (c + tx * ax) (tx * ay + s * az) (tx * az - s * ay) 0)
              (Vec4 (ty * ax - s * az) (c + ty * ay) (ty * az + s * ax) 0)
              (Vec4 (tz * ax + s * ay) (tz * ay - s * ax) (c + tz * az) 0)
              (Vec4 0 0 0 1))"

definition glm_real :: "real glm" where
  "glm_real = \<lparr>glm_radians = (\<lambda>degrees. degrees * pi / 180), glm_scale = real_scale,
     glm_rotate = real_rotate, glm_translate = real_translate, glm_times = mat4_times\<rparr>"

text \<open>
  The material wood of \<open>DefineObjectMaterials\<close>, and a material with nothing filled in.
\<close>

definition wood :: "real OBJECT_MATERIAL" where
  "wood = \<lparr>diffuseColor = Vec3 0.6 0.3 0.1, specularColor = Vec3 0.2 0.2 0.2, shininess = 10,
           OBJECT_MATERIAL.tag = ''wood''\<rparr>"

definition blank :: "real OBJECT_MATERIAL" where
  "blank = \<lparr>diffuseColor = Vec3 0 0 0, specularColor = Vec3 0 0 0, shininess = 0,
            OBJECT_MATERIAL.tag = []\<rparr>"

text \<open>
  A scene manager with a shader manager at address 0, an array of 16 texture records,
  nothing loaded and no material defined.
\<close>

definition scene0 :: "real state" where
  "scene0 = \<lparr>m_pShaderManager = Some 0, m_textureIDs = replicate 16 \<lparr>tag = [], ID = 0\<rparr>,
     m_loadedTextures = 0, m_objectMaterials = [],
     shaders = (\<lambda>p. Map.empty), events = [],
     gl_names = (\<lambda>k. word_of_nat k + 1), gl_generated = 0,
     gl_active_texture = enum GL_TEXTURE0, gl_texture_binding_2d = (\<lambda>u. 0),
     gl_max_texture_units = 16\<rparr>"

text \<open>
  Two textures loaded: wood in slot 0 with handle 1, fabric in slot 1 with handle 2, the
  two names the context has handed out so far.
\<close>

definition scene2 :: "real state" where
  "scene2 = scene0\<lparr>m_textureIDs := [\<lparr>tag = ''wood'', ID = 1\<rparr>, \<lparr>tag = ''fabric'', ID = 2\<rparr>]
                       @ replicate 14 \<lparr>tag = [], ID = 0\<rparr>,
                    m_loadedTextures := 2, gl_generated := 2\<rparr>"

text \<open>
  A decoder that knows two files: a 512 x 512 image with three channels and a grey image
  with two.
\<close>

definition decoder :: "string \<Rightarrow> stbi_image option" where
  "decoder filename =
     (if filename = ''Textures/wood.jpg'' then Some \<lparr>width = 512, height = 512, colorChannels = 3\<rparr>
      else if filename = ''Textures/grey.png'' then Some \<lparr>width = 64, height = 64, colorChannels = 2\<rparr>
      else None)"

text \<open>
  All 16 records of the array in use: the fifteen textures of \<open>PrepareScene\<close> and one
  more, with the handles 1 to 16.
\<close>

definition full16 :: "real state" where
  "full16 = scene0\<lparr>m_textureIDs :=
       map (\<lambda>(k, t). \<lparr>tag = t, ID = word_of_nat (Suc k)\<rparr>)
         (enumerate 0 [''wood'', ''fabric'', ''white'', ''floor'', ''pillow'', ''wall'', ''metal'',
            ''record_player'', ''turntable'', ''vinyl'', ''polka'', ''picture1'', ''picture2'',
            ''picture3'', ''picture4'', ''picture5'']),
     m_loadedTextures := 16, gl_generated := 16\<rparr>"

section \<open>Proofs\<close>

declare FindMaterial_while.simps [simp del]
declare FindTextureID_while.simps [simp del]
declare FindTextureSlot_while.simps [simp del]
declare BindGLTextures_for.simps [simp del]
declare DestroyGLTextures_for.simps [simp del]

subsection \<open>FindMaterial\<close>

lemma FindMaterial_while_find:
  "FindMaterial_while mats t (i, False, m) =
     (case find (\<lambda>e. OBJECT_MATERIAL.tag e = t) (drop i mats) of
        None \<Rightarrow> (max i (length mats), False, m)
      | Some e \<Rightarrow> (i + length (takeWhile (\<lambda>e. OBJECT_MATERIAL.tag e \<noteq> t) (drop i mats)), True,
                  m\<lparr>diffuseColor := diffuseColor e, specularColor := specularColor e,
                    shininess := shininess e\<rparr>))"
proof (induction "length mats - i" arbitrary: i)
  case 0
  then show ?case by (subst FindMaterial_while.simps) simp
next
  case (Suc n)
  then have lt: "i < length mats" by simp
  then have dr: "drop i mats = mats ! i # drop (Suc i) mats"
    by (simp add: Cons_nth_drop_Suc)
  show ?case
  proof (cases "OBJECT_MATERIAL.tag (mats ! i) = t")
    case True
    then show ?thesis using lt dr
      by (subst FindMaterial_while.simps, subst FindMaterial_while.simps) simp
  next
    case False
    have "n = length mats - Suc i" using Suc.hyps(2) by simp
    from Suc.hyps(1) [OF this] False lt dr show ?thesis
      by (subst FindMaterial_while.simps) (simp split: option.splits)
  qed
qed

lemma FindMaterial_find:
  "FindMaterial s t material =
     (if m_objectMaterials s = [] then (False, material)
      else (case find (\<lambda>e. OBJECT_MATERIAL.tag e = t) (m_objectMaterials s) of
              None \<Rightarrow> (True, material)
            | Some e \<Rightarrow> (True, material\<lparr>diffuseColor := diffuseColor e,
                  specularColor := specularColor e, shininess := shininess e\<rparr>)))"
  using FindMaterial_while_find [of "m_objectMaterials s" t 0 material]
  by (simp add: FindMaterial_def split: option.splits)

text \<open>
  C1: \<open>FindMaterial\<close> returns false exactly when no material is defined. With materials
  defined and none carrying the tag it returns true and the caller's material is as it
  was; with a match it returns true and the caller's material has the diffuse colour,
  specular colour and shininess of the first material carrying the tag.
\<close>

theorem FindMaterial_result:
  "(fst (FindMaterial s t material) = False \<longleftrightarrow> m_objectMaterials s = []) \<and>
   (m_objectMaterials s \<noteq> [] \<and> (\<forall>e \<in> set (m_objectMaterials s). OBJECT_MATERIAL.tag e \<noteq> t)
      \<longrightarrow> FindMaterial s t material = (True, material)) \<and>
   (\<forall>e. find (\<lambda>e. OBJECT_MATERIAL.tag e = t) (m_objectMaterials s) = Some e
      \<longrightarrow> FindMaterial s t material =
            (True, material\<lparr>diffuseColor := diffuseColor e, specularColor := specularColor e,
                            shininess := shininess e\<rparr>))"
proof (intro conjI allI impI)
  show "fst (FindMaterial s t material) = False \<longleftrightarrow> m_objectMaterials s = []"
    by (simp add: FindMaterial_find split: option.splits)
next
  assume "m_objectMaterials s \<noteq> [] \<and> (\<forall>e \<in> set (m_objectMaterials s). OBJECT_MATERIAL.tag e \<noteq> t)"
  then have "m_objectMaterials s \<noteq> []"
    and "find (\<lambda>e. OBJECT_MATERIAL.tag e = t) (m_objectMaterials s) = None"
    by (simp_all add: find_None_iff)
  then show "FindMaterial s t material = (True, material)"
    by (simp add: FindMaterial_find)
next
  fix e
  assume f: "find (\<lambda>e. OBJECT_MATERIAL.tag e = t) (m_objectMaterials s) = Some e"
  then have "m_objectMaterials s \<noteq> []" by auto
  with f show "FindMaterial s t material =
            (True, material\<lparr>diffuseColor := diffuseColor e, specularColor := specularColor e,
                            shininess := shininess e\<rparr>)"
    by (simp add: FindMaterial_find)
qed

theorem FindMaterial_result_witness:
  "fst (FindMaterial scene0 ''wood'' blank) = False \<and>
   FindMaterial (scene0\<lparr>m_objectMaterials := [wood]\<rparr>) ''glass'' blank = (True, blank) \<and>
   FindMaterial (scene0\<lparr>m_objectMaterials := [wood]\<rparr>) ''wood'' blank =
     (True, blank\<lparr>diffuseColor := Vec3 0.6 0.3 0.1, specularColor := Vec3 0.2 0.2 0.2,
                  shininess := 10\<rparr>)"
  using FindMaterial_result [of scene0 "''wood''" blank]
    FindMaterial_result [of "scene0\<lparr>m_objectMaterials := [wood]\<rparr>" "''glass''" blank]
    FindMaterial_result [of "scene0\<lparr>m_objectMaterials := [wood]\<rparr>" "''wood''" blank]
  by (simp add: scene0_def wood_def)

subsection \<open>FindTextureID and FindTextureSlot\<close>

lemma FindTextureSlot_while_absent:
  assumes "n \<le> int (length arr)"
    and "\<forall>j. i \<le> j \<and> int j < n \<longrightarrow> tag (arr ! j) \<noteq> t"
  shows "FindTextureSlot_while arr n t (r, i, False) = Inr (r, max i (nat n), False)"
  using assms
proof (induction "nat n - i" arbitrary: i)
  case 0
  then show ?case by (subst FindTextureSlot_while.simps) auto
next
  case (Suc d)
  then have lt: "int i < n" "i < length arr" by auto
  have ne: "tag (arr ! i) \<noteq> t" using Suc.prems(2) lt by auto
  have "d = nat n - Suc i" using Suc.hyps(2) by simp
  moreover have "\<forall>j. Suc i \<le> j \<and> int j < n \<longrightarrow> tag (arr ! j) \<noteq> t"
    using Suc.prems(2) by auto
  ultimately have "FindTextureSlot_while arr n t (r, Suc i, False) = Inr (r, max (Suc i) (nat n), False)"
    using Suc.hyps(1) Suc.prems(1) by blast
  moreover have "max (Suc i) (nat n) = max i (nat n)" using lt by auto
  ultimately show ?case using lt ne
    by (subst FindTextureSlot_while.simps) simp
qed

lemma FindTextureSlot_while_first:
  assumes "n \<le> int (length arr)" and "int k < n" and "i \<le> k"
    and "tag (arr ! k) = t"
    and "\<forall>j. i \<le> j \<and> j < k \<longrightarrow> tag (arr ! j) \<noteq> t"
  shows "FindTextureSlot_while arr n t (r, i, False) = Inr (int k, k, True)"
  using assms(3,5)
proof (induction "k - i" arbitrary: i)
  case 0
  then have "i = k" by simp
  then show ?case using assms(1,2,4)
    by (subst FindTextureSlot_while.simps, subst FindTextureSlot_while.simps) auto
next
  case (Suc d)
  then have lt: "i < k" by simp
  then have b: "int i < n" "i < length arr" using assms(1,2) by auto
  have ne: "tag (arr ! i) \<noteq> t" using Suc.prems(2) lt by auto
  have "d = k - Suc i" using Suc.hyps(2) by simp
  moreover have "Suc i \<le> k" using lt by simp
  moreover have "\<forall>j. Suc i \<le> j \<and> j < k \<longrightarrow> tag (arr ! j) \<noteq> t"
    using Suc.prems(2) by auto
  ultimately have "FindTextureSlot_while arr n t (r, Suc i, False) = Inr (int k, k, True)"
    using Suc.hyps(1) by blast
  then show ?case using b ne
    by (subst FindTextureSlot_while.simps) simp
qed

lemma FindTextureID_while_absent:
  assumes "n \<le> int (length arr)"
    and "\<forall>j. i \<le> j \<and> int j < n \<longrightarrow> tag (arr ! j) \<noteq> t"
  shows "FindTextureID_while arr n t (r, i, False) = Inr (r, max i (nat n), False)"
  using assms
proof (induction "nat n - i" arbitrary: i)
  case 0
  then show ?case by (subst FindTextureID_while.simps) auto
next
  case (Suc d)
  then have lt: "int i < n" "i < length arr" by auto
  have ne: "tag (arr ! i) \<noteq> t" using Suc.prems(2) lt by auto
  have "d = nat n - Suc i" using Suc.hyps(2) by simp
  moreover have "\<forall>j. Suc i \<le> j \<and> int j < n \<longrightarrow> tag (arr ! j) \<noteq> t"
    using Suc.prems(2) by auto
  ultimately have "FindTextureID_while arr n t (r, Suc i, False) = Inr (r, max (Suc i) (nat n), False)"
    using Suc.hyps(1) Suc.prems(1) by blast
  moreover have "max (Suc i) (nat n) = max i (nat n)" using lt by auto
  ultimately show ?case using lt ne
    by (subst FindTextureID_while.simps) simp
qed

lemma FindTextureID_while_first:
  assumes "n \<le> int (length arr)" and "int k < n" and "i \<le> k"
    and "tag (arr ! k) = t"
    and "\<forall>j. i \<le> j \<and> j < k \<longrightarrow> tag (arr ! j) \<noteq> t"
  shows "FindTextureID_while arr n t (r, i, False) = Inr (sint (ID (arr ! k)), k, True)"
  using assms(3,5)
proof (induction "k - i" arbitrary: i)
  case 0
  then have "i = k" by simp
  then show ?case using assms(1,2,4)
    by (subst FindTextureID_while.simps, subst FindTextureID_while.simps) auto
next
  case (Suc d)
  then have lt: "i < k" by simp
  then have b: "int i < n" "i < length arr" using assms(1,2) by auto
  have ne: "tag (arr ! i) \<noteq> t" using Suc.prems(2) lt by auto
  have "d = k - Suc i" using Suc.hyps(2) by simp
  moreover have "Suc i \<le> k" using lt by simp
  moreover have "\<forall>j. Suc i \<le> j \<and> j < k \<longrightarrow> tag (arr ! j) \<noteq> t"
    using Suc.prems(2) by auto
  ultimately have "FindTextureID_while arr n t (r, Suc i, False) = Inr (sint (ID (arr ! k)), k, True)"
    using Suc.hyps(1) by blast
  then show ?case using b ne
    by (subst FindTextureID_while.simps) simp
qed

lemma FindTextureSlot_absent:
  "registry_ok s \<Longrightarrow> \<forall>j. int j < m_loadedTextures s \<longrightarrow> tag (m_textureIDs s ! j) \<noteq> t
    \<Longrightarrow> FindTextureSlot s t = Inr (- 1)"
  using FindTextureSlot_while_absent [of "m_loadedTextures s" "m_textureIDs s" 0 t "- 1"]
  by (simp add: FindTextureSlot_def registry_ok_def)

lemma FindTextureSlot_first:
  "registry_ok s \<Longrightarrow> int k < m_loadedTextures s \<Longrightarrow> tag (m_textureIDs s ! k) = t
    \<Longrightarrow> \<forall>j<k. tag (m_textureIDs s ! j) \<noteq> t \<Longrightarrow> FindTextureSlot s t = Inr (int k)"
  using FindTextureSlot_while_first [of "m_loadedTextures s" "m_textureIDs s" k 0 t "- 1"]
  by (simp add: FindTextureSlot_def registry_ok_def)

lemma FindTextureID_absent:
  "registry_ok s \<Longrightarrow> \<forall>j. int j < m_loadedTextures s \<longrightarrow> tag (m_textureIDs s ! j) \<noteq> t
    \<Longrightarrow> FindTextureID s t = Inr (- 1)"
  using FindTextureID_while_absent [of "m_loadedTextures s" "m_textureIDs s" 0 t "- 1"]
  by (simp add: FindTextureID_def registry_ok_def)

lemma FindTextureID_first:
  "registry_ok s \<Longrightarrow> int k < m_loadedTextures s \<Longrightarrow> tag (m_textureIDs s ! k) = t
    \<Longrightarrow> \<forall>j<k. tag (m_textureIDs s ! j) \<noteq> t
    \<Longrightarrow> FindTextureID s t = Inr (sint (ID (m_textureIDs s ! k)))"
  using FindTextureID_while_first [of "m_loadedTextures s" "m_textureIDs s" k 0 t "- 1"]
  by (simp add: FindTextureID_def registry_ok_def)

text \<open>
  C6: with the counter inside the array, \<open>FindTextureID\<close> and \<open>FindTextureSlot\<close>
  return -1 for a tag that none of the loaded entries carries; for a tag whose first
  entry is at index \<open>k\<close>, \<open>FindTextureSlot\<close> returns \<open>k\<close> and \<open>FindTextureID\<close> the
  handle of that entry, read as an \<open>int\<close>. The scan goes through the entries in the order
  of their registration and stops at the first match.
\<close>

theorem FindTexture_result:
  assumes "registry_ok s"
  shows "((\<forall>j. int j < m_loadedTextures s \<longrightarrow> tag (m_textureIDs s ! j) \<noteq> t) \<longrightarrow>
            FindTextureID s t = Inr (- 1) \<and> FindTextureSlot s t = Inr (- 1)) \<and>
         (\<forall>k. int k < m_loadedTextures s \<and> tag (m_textureIDs s ! k) = t \<and>
              (\<forall>j<k. tag (m_textureIDs s ! j) \<noteq> t) \<longrightarrow>
            FindTextureSlot s t = Inr (int k) \<and>
            FindTextureID s t = Inr (sint (ID (m_textureIDs s ! k))))"
  using assms
  by (auto simp: FindTextureSlot_absent FindTextureID_absent FindTextureSlot_first
      FindTextureID_first)

theorem FindTexture_result_witness:
  "registry_ok scene2 \<and>
   FindTextureID scene2 ''glass'' = Inr (- 1) \<and> FindTextureSlot scene2 ''glass'' = Inr (- 1) \<and>
   FindTextureSlot scene2 ''fabric'' = Inr 1 \<and> FindTextureID scene2 ''fabric'' = Inr 2"
proof -
  have ok: "registry_ok scene2"
    by (simp add: registry_ok_def scene2_def scene0_def)
  have a: "\<forall>j. int j < m_loadedTextures scene2 \<longrightarrow> tag (m_textureIDs scene2 ! j) \<noteq> ''glass''"
    by (auto simp: scene2_def scene0_def less_2_cases_iff)
  have b: "int 1 < m_loadedTextures scene2 \<and> tag (m_textureIDs scene2 ! 1) = ''fabric'' \<and>
      (\<forall>j<1. tag (m_textureIDs scene2 ! j) \<noteq> ''fabric'')"
    by (simp add: scene2_def scene0_def)
  have c: "sint (ID (m_textureIDs scene2 ! 1)) = 2"
    by (simp add: scene2_def scene0_def)
  show ?thesis
    using FindTexture_result [OF ok, of "''glass''"] FindTexture_result [OF ok, of "''fabric''"]
      ok a b c by (metis of_nat_1)
qed

subsection \<open>The shader state binder\<close>

lemma uniform_names_distinct:
  "g_UseTextureName \<noteq> g_TextureValueName" "g_UseTextureName \<noteq> g_ColorValueName"
  "g_TextureValueName \<noteq> g_UseTextureName" "g_ColorValueName \<noteq> g_UseTextureName"
  by (simp_all add: g_UseTextureName_def g_TextureValueName_def g_ColorValueName_def)

lemma arrow_fields:
  "m_pShaderManager (arrow p f s) = m_pShaderManager s"
  "m_textureIDs (arrow p f s) = m_textureIDs s"
  "m_loadedTextures (arrow p f s) = m_loadedTextures s"
  "shaders (arrow p f s) p = f (shaders s p)"
  by (simp_all add: arrow_def)

lemma registry_ok_arrow: "registry_ok (arrow p f s) = registry_ok s"
  by (simp add: registry_ok_def arrow_fields)

lemma FindTextureSlot_arrow: "FindTextureSlot (arrow p f s) t = FindTextureSlot s t"
  by (simp add: FindTextureSlot_def arrow_fields)

lemma FindTextureSlot_returns:
  assumes "registry_ok s"
  shows "\<exists>r. FindTextureSlot s t = Inr r"
proof (cases "\<forall>j. int j < m_loadedTextures s \<longrightarrow> tag (m_textureIDs s ! j) \<noteq> t")
  case True
  with assms show ?thesis by (simp add: FindTextureSlot_absent)
next
  case False
  define k where "k = (LEAST j. int j < m_loadedTextures s \<and> tag (m_textureIDs s ! j) = t)"
  from False have ex: "\<exists>j. int j < m_loadedTextures s \<and> tag (m_textureIDs s ! j) = t" by blast
  then have "int k < m_loadedTextures s \<and> tag (m_textureIDs s ! k) = t"
    unfolding k_def by (rule LeastI_ex)
  moreover have "\<forall>j<k. tag (m_textureIDs s ! j) \<noteq> t"
  proof (intro allI impI)
    fix j assume "j < k"
    then have "\<not> (int j < m_loadedTextures s \<and> tag (m_textureIDs s ! j) = t)"
      unfolding k_def by (rule not_less_Least)
    moreover have "int j < m_loadedTextures s"
      using \<open>j < k\<close> \<open>int k < m_loadedTextures s \<and> tag (m_textureIDs s ! k) = t\<close> by linarith
    ultimately show "tag (m_textureIDs s ! j) \<noteq> t" by blast
  qed
  ultimately show ?thesis using assms by (auto simp: FindTextureSlot_first)
qed

lemma SetShaderTexture_Some:
  assumes "registry_ok s" and "m_pShaderManager s = Some p"
  shows "\<exists>r. FindTextureSlot s t = Inr r \<and>
           SetShaderTexture t s =
             Inr (arrow p (setSampler2DValue g_TextureValueName r)
                   (arrow p (setIntValue g_UseTextureName 1) s))"
proof -
  from FindTextureSlot_returns [OF assms(1)] obtain r where "FindTextureSlot s t = Inr r" ..
  then show ?thesis using assms(2)
    by (simp add: SetShaderTexture_def FindTextureSlot_arrow)
qed

lemma SetShaderTexture_flag:
  assumes "registry_ok s" and "m_pShaderManager s = Some p"
  shows "\<exists>s'. SetShaderTexture t s = Inr s' \<and> registry_ok s' \<and> m_pShaderManager s' = Some p \<and>
           shaders s' p g_UseTextureName = Some (IntValue 1)"
proof -
  from SetShaderTexture_Some [OF assms] obtain r where
    "SetShaderTexture t s =
       Inr (arrow p (setSampler2DValue g_TextureValueName r)
             (arrow p (setIntValue g_UseTextureName 1) s))" by blast
  then show ?thesis using assms
    by (simp add: registry_ok_arrow arrow_fields setSampler2DValue_def setIntValue_def
        setUniform_def uniform_names_distinct)
qed

lemma SetShaderColor_flag:
  assumes "m_pShaderManager s = Some p"
  shows "m_pShaderManager (SetShaderColor r g b a s) = Some p"
    and "registry_ok (SetShaderColor r g b a s) = registry_ok s"
    and "shaders (SetShaderColor r g b a s) p g_UseTextureName = Some (IntValue 0)"
    and "shaders (SetShaderColor r g b a s) p g_ColorValueName = Some (Vec4Value (Vec4 r g b a))"
  using assms
  by (simp_all add: SetShaderColor_def registry_ok_arrow arrow_fields setVec4Value_def
      setIntValue_def setUniform_def uniform_names_distinct)

text \<open>The value of the use-texture flag that a call leaves behind.\<close>

lemma run_calls_flag:
  assumes "registry_ok s" and "m_pShaderManager s = Some p" and "cs \<noteq> []"
  shows "\<exists>s'. run_calls cs s = Inr s' \<and>
           shaders s' p g_UseTextureName =
             Some (IntValue (case last cs of CallSetShaderColor r g b a \<Rightarrow> 0
                                           | CallSetShaderTexture t \<Rightarrow> 1))"
  using assms
proof (induction cs arbitrary: s)
  case Nil
  then show ?case by simp
next
  case (Cons c cs)
  show ?case
  proof (cases c)
    case (CallSetShaderColor r g b a)
    let ?s1 = "SetShaderColor r g b a s"
    have ok: "registry_ok ?s1" "m_pShaderManager ?s1 = Some p"
      using Cons.prems by (simp_all add: SetShaderColor_flag)
    show ?thesis
    proof (cases "cs = []")
      case True
      then show ?thesis using CallSetShaderColor Cons.prems
        by (simp add: SetShaderColor_flag)
    next
      case False
      from Cons.IH [OF ok False] show ?thesis using CallSetShaderColor False by simp
    qed
  next
    case (CallSetShaderTexture t)
    from SetShaderTexture_flag [OF Cons.prems(1,2)] obtain s1 where
      s1: "SetShaderTexture t s = Inr s1" "registry_ok s1" "m_pShaderManager s1 = Some p"
        "shaders s1 p g_UseTextureName = Some (IntValue 1)" by blast
    show ?thesis
    proof (cases "cs = []")
      case True
      then show ?thesis using CallSetShaderTexture s1 by simp
    next
      case False
      from Cons.IH [OF s1(2,3) False] show ?thesis using CallSetShaderTexture False s1(1) by simp
    qed
  qed
qed

text \<open>
  C7: with a shader manager and the counter inside the array, \<open>SetShaderTexture\<close> returns,
  the use-texture flag is then 1 (true), and the sampler uniform holds the slot of the
  first entry that carries the tag, or -1 when no loaded entry carries it.
\<close>

theorem SetShaderTexture_result:
  assumes "registry_ok s" and "m_pShaderManager s = Some p"
  shows "\<exists>s'. SetShaderTexture t s = Inr s' \<and>
           shaders s' p g_UseTextureName = Some (IntValue 1) \<and>
           ((\<forall>j. int j < m_loadedTextures s \<longrightarrow> tag (m_textureIDs s ! j) \<noteq> t) \<longrightarrow>
              shaders s' p g_TextureValueName = Some (Sampler2DValue (- 1))) \<and>
           (\<forall>k. int k < m_loadedTextures s \<and> tag (m_textureIDs s ! k) = t \<and>
                (\<forall>j<k. tag (m_textureIDs s ! j) \<noteq> t) \<longrightarrow>
              shaders s' p g_TextureValueName = Some (Sampler2DValue (int k)))"
proof -
  from SetShaderTexture_Some [OF assms] obtain r where
    r: "FindTextureSlot s t = Inr r" and
    eq: "SetShaderTexture t s =
       Inr (arrow p (setSampler2DValue g_TextureValueName r)
             (arrow p (setIntValue g_UseTextureName 1) s))" by blast
  let ?s' = "arrow p (setSampler2DValue g_TextureValueName r)
             (arrow p (setIntValue g_UseTextureName 1) s)"
  have flag: "shaders ?s' p g_UseTextureName = Some (IntValue 1)"
    by (simp add: arrow_fields setSampler2DValue_def setIntValue_def setUniform_def
        uniform_names_distinct)
  have sampler: "shaders ?s' p g_TextureValueName = Some (Sampler2DValue r)"
    by (simp add: arrow_fields setSampler2DValue_def setUniform_def)
  have absent: "(\<forall>j. int j < m_loadedTextures s \<longrightarrow> tag (m_textureIDs s ! j) \<noteq> t) \<longrightarrow> r = - 1"
    using r FindTextureSlot_absent [OF assms(1), of t] by auto
  have first: "\<forall>k. int k < m_loadedTextures s \<and> tag (m_textureIDs s ! k) = t \<and>
                (\<forall>j<k. tag (m_textureIDs s ! j) \<noteq> t) \<longrightarrow> r = int k"
    using r FindTextureSlot_first [OF assms(1), of _ t] by auto
  show ?thesis using eq flag sampler absent first by auto
qed

theorem SetShaderTexture_result_witness:
  "\<exists>s'. SetShaderTexture ''fabric'' scene2 = Inr s' \<and>
         shaders s' 0 g_UseTextureName = Some (IntValue 1) \<and>
         shaders s' 0 g_TextureValueName = Some (Sampler2DValue 1)"
proof -
  have ok: "registry_ok scene2" "m_pShaderManager scene2 = Some 0"
    by (simp_all add: registry_ok_def scene2_def scene0_def)
  have b: "int 1 < m_loadedTextures scene2 \<and> tag (m_textureIDs scene2 ! 1) = ''fabric'' \<and>
      (\<forall>j<1. tag (m_textureIDs scene2 ! j) \<noteq> ''fabric'')"
    by (simp add: scene2_def scene0_def)
  from SetShaderTexture_result [OF ok, of "''fabric''"] b show ?thesis
    by (metis of_nat_1)
qed

text \<open>
  C9: with a shader manager, \<open>SetShaderColor\<close> leaves the use-texture flag at 0 (false)
  and the colour uniform at the four values it was given, \<open>SetShaderTexture\<close> leaves the
  flag at 1 (true), and after any non-empty sequence of the two calls the flag is the one
  of the last call of the sequence.
\<close>

theorem use_texture_flag_last_call:
  assumes "registry_ok s" and "m_pShaderManager s = Some p"
  shows "shaders (SetShaderColor r g b a s) p g_UseTextureName = Some (IntValue 0) \<and>
         shaders (SetShaderColor r g b a s) p g_ColorValueName = Some (Vec4Value (Vec4 r g b a)) \<and>
         (\<exists>s'. SetShaderTexture t s = Inr s' \<and>
                shaders s' p g_UseTextureName = Some (IntValue 1)) \<and>
         (\<forall>cs. cs \<noteq> [] \<longrightarrow>
            (\<exists>s'. run_calls cs s = Inr s' \<and>
               shaders s' p g_UseTextureName =
                 Some (IntValue (case last cs of CallSetShaderColor r g b a \<Rightarrow> 0
                                               | CallSetShaderTexture t \<Rightarrow> 1))))"
proof (intro conjI allI impI)
  show "shaders (SetShaderColor r g b a s) p g_UseTextureName = Some (IntValue 0)"
    using assms(2) by (rule SetShaderColor_flag)
  show "shaders (SetShaderColor r g b a s) p g_ColorValueName = Some (Vec4Value (Vec4 r g b a))"
    using assms(2) by (rule SetShaderColor_flag)
  show "\<exists>s'. SetShaderTexture t s = Inr s' \<and> shaders s' p g_UseTextureName = Some (IntValue 1)"
    using SetShaderTexture_flag [OF assms] by blast
next
  fix cs :: "'a binder_call list"
  assume "cs \<noteq> []"
  with assms show "\<exists>s'. run_calls cs s = Inr s' \<and>
               shaders s' p g_UseTextureName =
                 Some (IntValue (case last cs of CallSetShaderColor r g b a \<Rightarrow> 0
                                               | CallSetShaderTexture t \<Rightarrow> 1))"
    by (rule run_calls_flag)
qed

theorem use_texture_flag_last_call_witness:
  "(\<exists>s'. run_calls [CallSetShaderTexture ''wood'', CallSetShaderColor 1 0 0 1] scene2 = Inr s' \<and>
          shaders s' 0 g_UseTextureName = Some (IntValue 0)) \<and>
   (\<exists>s'. run_calls [CallSetShaderColor 1 0 0 1, CallSetShaderTexture ''wood''] scene2 = Inr s' \<and>
          shaders s' 0 g_UseTextureName = Some (IntValue 1))"
proof -
  have ok: "registry_ok scene2" "m_pShaderManager scene2 = Some 0"
    by (simp_all add: registry_ok_def scene2_def scene0_def)
  from use_texture_flag_last_call [OF ok, of 1 0 0 1 "''wood''"]
  have all: "\<forall>cs. cs \<noteq> [] \<longrightarrow>
            (\<exists>s'. run_calls cs scene2 = Inr s' \<and>
               shaders s' 0 g_UseTextureName =
                 Some (IntValue (case last cs of CallSetShaderColor r g b a \<Rightarrow> 0
                                               | CallSetShaderTexture t \<Rightarrow> 1)))"
    by blast
  from all [rule_format, of "[CallSetShaderTexture ''wood'', CallSetShaderColor 1 0 0 1]"]
    all [rule_format, of "[CallSetShaderColor 1 0 0 1, CallSetShaderTexture ''wood'']"]
  show ?thesis by simp
qed

text \<open>
  C10: with the shader manager pointer null, \<open>SetTransformations\<close>, \<open>SetShaderColor\<close>,
  \<open>SetShaderTexture\<close> and \<open>SetTextureUVScale\<close> return the state they were given: no
  uniform of any shader manager is written, whatever the arguments.
\<close>

theorem null_shader_manager_no_write:
  assumes "m_pShaderManager s = None"
  shows "SetTransformations glm scaleXYZ xd yd zd positionXYZ s = s \<and>
         SetShaderColor r g b a s = s \<and>
         SetShaderTexture t s = Inr s \<and>
         SetTextureUVScale u v s = s"
  using assms
  by (simp add: SetTransformations_def SetShaderColor_def SetShaderTexture_def
      SetTextureUVScale_def Let_def)

theorem null_shader_manager_no_write_witness:
  "SetTransformations glm_real (Vec3 2 1 1) 0 90 0 (Vec3 1 0 0) (scene2\<lparr>m_pShaderManager := None\<rparr>)
     = scene2\<lparr>m_pShaderManager := None\<rparr> \<and>
   SetShaderColor 1 0 0 1 (scene2\<lparr>m_pShaderManager := None\<rparr>) = scene2\<lparr>m_pShaderManager := None\<rparr> \<and>
   SetShaderTexture ''wood'' (scene2\<lparr>m_pShaderManager := None\<rparr>)
     = Inr (scene2\<lparr>m_pShaderManager := None\<rparr>) \<and>
   SetTextureUVScale 4 2 (scene2\<lparr>m_pShaderManager := None\<rparr>) = scene2\<lparr>m_pShaderManager := None\<rparr>"
  using null_shader_manager_no_write [of "scene2\<lparr>m_pShaderManager := None\<rparr>" glm_real
      "Vec3 2 1 1" 0 90 0 "Vec3 1 0 0" 1 0 0 1 "''wood''" 4 2]
  by simp

text \<open>
  C3: with a shader manager, \<open>SetTransformations\<close> changes the state in one place: the
  uniform \<open>model\<close> of the shader manager becomes the product translation * rotationZ *
  rotationY * rotationX * scale, the products taken from the left, where each rotation
  is built about its axis from the angle converted to radians.
\<close>

theorem SetTransformations_model:
  assumes "m_pShaderManager s = Some p"
  shows "SetTransformations glm scaleXYZ xd yd zd positionXYZ s =
           s\<lparr>shaders := (shaders s)(p := (shaders s p)(''model'' \<mapsto> Mat4Value
               (glm_times glm
                 (glm_times glm
                   (glm_times glm
                     (glm_times glm (glm_translate glm positionXYZ)
                       (glm_rotate glm (glm_radians glm zd) (Vec3 0 0 1)))
                     (glm_rotate glm (glm_radians glm yd) (Vec3 0 1 0)))
                   (glm_rotate glm (glm_radians glm xd) (Vec3 1 0 0)))
                 (glm_scale glm scaleXYZ))))\<rparr>"
  using assms
  by (simp add: SetTransformations_def Let_def arrow_def setMat4Value_def setUniform_def
      g_ModelName_def)

theorem SetTransformations_model_witness:
  "shaders (SetTransformations glm_real (Vec3 2 1 1) 0 90 0 (Vec3 1 0 0) scene0) 0 ''model'' =
     Some (Mat4Value (Mat4 (Vec4 0 0 (- 2) 0) (Vec4 0 1 0 0) (Vec4 1 0 0 0) (Vec4 1 0 0 1)))"
proof -
  have p: "m_pShaderManager scene0 = Some 0" by (simp add: scene0_def)
  show ?thesis
    by (simp add: SetTransformations_model [OF p] glm_real_def)
qed

subsection \<open>CreateGLTexture\<close>

lemma record_event_fields:
  "m_textureIDs (record_event e s) = m_textureIDs s"
  "m_loadedTextures (record_event e s) = m_loadedTextures s"
  "gl_names (record_event e s) = gl_names s"
  "gl_generated (record_event e s) = gl_generated s"
  by (simp_all add: record_event_def)

lemma glGenTextures_fields:
  "fst (glGenTextures s) = gl_names s (gl_generated s)"
  "m_textureIDs (snd (glGenTextures s)) = m_textureIDs s"
  "m_loadedTextures (snd (glGenTextures s)) = m_loadedTextures s"
  by (simp_all add: glGenTextures_def Let_def record_event_fields)

lemma glBindTexture_fields:
  "m_textureIDs (glBindTexture target texture s) = m_textureIDs s"
  "m_loadedTextures (glBindTexture target texture s) = m_loadedTextures s"
  by (simp_all add: glBindTexture_def Let_def record_event_fields)

lemma gl_log_fields:
  "m_textureIDs (glTexParameteri target pname param s) = m_textureIDs s"
  "m_loadedTextures (glTexParameteri target pname param s) = m_loadedTextures s"
  "m_textureIDs (glTexImage2D target level internalformat w h border format type s) = m_textureIDs s"
  "m_loadedTextures (glTexImage2D target level internalformat w h border format type s) = m_loadedTextures s"
  "m_textureIDs (glGenerateMipmap target s) = m_textureIDs s"
  "m_loadedTextures (glGenerateMipmap target s) = m_loadedTextures s"
  by (simp_all add: glTexParameteri_def glTexImage2D_def glGenerateMipmap_def record_event_fields)

lemma TEXTURE_INFO_updates:
  "(e::TEXTURE_INFO)\<lparr>ID := textureID, tag := t\<rparr> = \<lparr>tag = t, ID = textureID\<rparr>"
  by (cases e) simp

lemma CreateGLTexture_register_eq:
  assumes "0 \<le> m_loadedTextures s" and "m_loadedTextures s < int (length (m_textureIDs s))"
  shows "CreateGLTexture_register textureID t s =
           Inr (True,
             (glBindTexture (enum GL_TEXTURE_2D) 0
               (record_event StbiImageFree (glGenerateMipmap (enum GL_TEXTURE_2D) s)))
             \<lparr>m_textureIDs := (m_textureIDs s)[nat (m_loadedTextures s) := \<lparr>tag = t, ID = textureID\<rparr>],
              m_loadedTextures := m_loadedTextures s + 1\<rparr>)"
  using assms
  by (simp add: CreateGLTexture_register_def Let_def gl_log_fields glBindTexture_fields
      record_event_fields TEXTURE_INFO_updates)

lemma CreateGLTexture_unsupported:
  assumes "stbi_load filename = Some img" and "colorChannels img \<noteq> 3" and "colorChannels img \<noteq> 4"
  shows "\<exists>s'. CreateGLTexture stbi_load filename t s = Inr (False, s') \<and>
           m_textureIDs s' = m_textureIDs s \<and> m_loadedTextures s' = m_loadedTextures s"
  using assms
  by (simp add: CreateGLTexture_def Let_def gl_log_fields glBindTexture_fields
      glGenTextures_fields record_event_fields)

lemma CreateGLTexture_supported:
  assumes "stbi_load filename = Some img" and "colorChannels img = 3 \<or> colorChannels img = 4"
    and "0 \<le> m_loadedTextures s" and "m_loadedTextures s < int (length (m_textureIDs s))"
  shows "\<exists>s'. CreateGLTexture stbi_load filename t s = Inr (True, s') \<and>
           m_loadedTextures s' = m_loadedTextures s + 1 \<and>
           m_textureIDs s' = (m_textureIDs s)[nat (m_loadedTextures s) :=
                                \<lparr>tag = t, ID = gl_names s (gl_generated s)\<rparr>]"
  using assms(2)
proof
  assume "colorChannels img = 3"
  then show ?thesis using assms(1,3,4)
    by (simp add: CreateGLTexture_def Let_def CreateGLTexture_register_eq gl_log_fields
        glBindTexture_fields glGenTextures_fields record_event_fields)
next
  assume "colorChannels img = 4"
  then show ?thesis using assms(1,3,4)
    by (simp add: CreateGLTexture_def Let_def CreateGLTexture_register_eq gl_log_fields
        glBindTexture_fields glGenTextures_fields record_event_fields)
qed

text \<open>
  With all records of the array in use the counter equals the size of the array, and a
  file that decodes to a 3-channel image is not registered: the write to
  \<open>m_textureIDs[m_loadedTextures]\<close> falls outside the array.
\<close>

theorem CreateGLTexture_full_counterexample:
  "registry_ok full16 \<and>
   m_loadedTextures full16 = int (length (m_textureIDs full16)) \<and>
   decoder ''Textures/wood.jpg'' = Some \<lparr>width = 512, height = 512, colorChannels = 3\<rparr> \<and>
   CreateGLTexture decoder ''Textures/wood.jpg'' ''extra'' full16 = Inl OutOfBounds"
  by (simp add: registry_ok_def full16_def scene0_def decoder_def CreateGLTexture_def
      CreateGLTexture_register_def Let_def gl_log_fields glBindTexture_fields
      glGenTextures_fields record_event_fields)

text \<open>
  C5, amended: for a file that decodes to an image whose channel count is neither 3 nor
  4, \<open>CreateGLTexture\<close> returns false with the texture array and the counter as they
  were. For a file that decodes to a 3- or 4-channel image, when the counter is an index
  of the array (at least 0 and below its size), it returns true, the counter is one
  higher, and the array differs in the entry at the old counter only, which holds the
  tag and the new handle.
\<close>

theorem CreateGLTexture_channels:
  "(stbi_load filename = Some img \<and> colorChannels img \<noteq> 3 \<and> colorChannels img \<noteq> 4 \<longrightarrow>
      (\<exists>s'. CreateGLTexture stbi_load filename t s = Inr (False, s') \<and>
             m_textureIDs s' = m_textureIDs s \<and> m_loadedTextures s' = m_loadedTextures s)) \<and>
   (stbi_load filename = Some img \<and> (colorChannels img = 3 \<or> colorChannels img = 4) \<and>
    0 \<le> m_loadedTextures s \<and> m_loadedTextures s < int (length (m_textureIDs s)) \<longrightarrow>
      (\<exists>s'. CreateGLTexture stbi_load filename t s = Inr (True, s') \<and>
             m_loadedTextures s' = m_loadedTextures s + 1 \<and>
             m_textureIDs s' = (m_textureIDs s)[nat (m_loadedTextures s) :=
                                  \<lparr>tag = t, ID = gl_names s (gl_generated s)\<rparr>]))"
proof (intro conjI impI)
  assume "stbi_load filename = Some img \<and> colorChannels img \<noteq> 3 \<and> colorChannels img \<noteq> 4"
  then show "\<exists>s'. CreateGLTexture stbi_load filename t s = Inr (False, s') \<and>
             m_textureIDs s' = m_textureIDs s \<and> m_loadedTextures s' = m_loadedTextures s"
    using CreateGLTexture_unsupported by blast
next
  assume "stbi_load filename = Some img \<and> (colorChannels img = 3 \<or> colorChannels img = 4) \<and>
    0 \<le> m_loadedTextures s \<and> m_loadedTextures s < int (length (m_textureIDs s))"
  then show "\<exists>s'. CreateGLTexture stbi_load filename t s = Inr (True, s') \<and>
             m_loadedTextures s' = m_loadedTextures s + 1 \<and>
             m_textureIDs s' = (m_textureIDs s)[nat (m_loadedTextures s) :=
                                  \<lparr>tag = t, ID = gl_names s (gl_generated s)\<rparr>]"
    using CreateGLTexture_supported by blast
qed

theorem CreateGLTexture_channels_witness:
  "(\<exists>s'. CreateGLTexture decoder ''Textures/grey.png'' ''grey'' scene2 = Inr (False, s') \<and>
          m_textureIDs s' = m_textureIDs scene2 \<and> m_loadedTextures s' = 2) \<and>
   (\<exists>s'. CreateGLTexture decoder ''Textures/wood.jpg'' ''wood2'' scene2 = Inr (True, s') \<and>
          m_loadedTextures s' = 3 \<and>
          m_textureIDs s' = (m_textureIDs scene2)[2 := \<lparr>tag = ''wood2'', ID = 3\<rparr>])"
proof -
  have grey: "decoder ''Textures/grey.png'' = Some \<lparr>width = 64, height = 64, colorChannels = 2\<rparr> \<and>
      colorChannels \<lparr>width = 64, height = 64, colorChannels = 2\<rparr> \<noteq> 3 \<and>
      colorChannels \<lparr>width = 64, height = 64, colorChannels = 2\<rparr> \<noteq> 4"
    by (simp add: decoder_def)
  have wood: "decoder ''Textures/wood.jpg'' = Some \<lparr>width = 512, height = 512, colorChannels = 3\<rparr> \<and>
      (colorChannels \<lparr>width = 512, height = 512, colorChannels = 3\<rparr> = 3 \<or>
       colorChannels \<lparr>width = 512, height = 512, colorChannels = 3\<rparr> = 4) \<and>
      0 \<le> m_loadedTextures scene2 \<and> m_loadedTextures scene2 < int (length (m_textureIDs scene2))"
    by (simp add: decoder_def scene2_def scene0_def)
  have v: "m_loadedTextures scene2 = 2" "gl_names scene2 (gl_generated scene2) = 3"
    by (simp_all add: scene2_def scene0_def)
  from CreateGLTexture_channels [of decoder "''Textures/grey.png''"
      "\<lparr>width = 64, height = 64, colorChannels = 2\<rparr>" "''grey''" scene2] grey
  have 1: "\<exists>s'. CreateGLTexture decoder ''Textures/grey.png'' ''grey'' scene2 = Inr (False, s') \<and>
          m_textureIDs s' = m_textureIDs scene2 \<and> m_loadedTextures s' = m_loadedTextures scene2"
    by blast
  from CreateGLTexture_channels [of decoder "''Textures/wood.jpg''"
      "\<lparr>width = 512, height = 512, colorChannels = 3\<rparr>" "''wood2''" scene2] wood
  have 2: "\<exists>s'. CreateGLTexture decoder ''Textures/wood.jpg'' ''wood2'' scene2 = Inr (True, s') \<and>
             m_loadedTextures s' = m_loadedTextures scene2 + 1 \<and>
             m_textureIDs s' = (m_textureIDs scene2)[nat (m_loadedTextures scene2) :=
                                  \<lparr>tag = ''wood2'', ID = gl_names scene2 (gl_generated scene2)\<rparr>]"
    by blast
  from 1 2 show ?thesis by (simp add: v)
qed

subsection \<open>BindGLTextures\<close>

text \<open>Texture units below \<open>2 ^ 31\<close> have distinct names, all at or above \<open>GL_TEXTURE0\<close>.\<close>

lemma uint_unit:
  assumes "k < 2 ^ 31"
  shows "uint (enum (GL_TEXTURE0 + int k)) = GL_TEXTURE0 + int k"
proof -
  have "GL_TEXTURE0 + int k < 2 ^ 32" "0 \<le> GL_TEXTURE0 + int k"
    using assms by (simp_all add: GL_TEXTURE0_def)
  then have "take_bit 32 (GL_TEXTURE0 + int k) = GL_TEXTURE0 + int k"
    by (simp add: take_bit_int_eq_self)
  then show ?thesis
    unfolding enum_def by (simp only: uint_word_of_int_eq) simp
qed

lemma unit_inject:
  assumes "j < 2 ^ 31" and "k < 2 ^ 31" and "enum (GL_TEXTURE0 + int j) = enum (GL_TEXTURE0 + int k)"
  shows "j = k"
proof -
  have "uint (enum (GL_TEXTURE0 + int j)) = uint (enum (GL_TEXTURE0 + int k))"
    using assms(3) by simp
  then show ?thesis using assms(1,2) by (simp add: uint_unit)
qed

lemma bind_step:
  assumes "i < gl_max_texture_units s" and "i < 2 ^ 31"
  shows "glBindTexture (enum GL_TEXTURE_2D) h (glActiveTexture (enum (GL_TEXTURE0 + int i)) s) =
           s\<lparr>events := events s @ [GlActiveTexture (enum (GL_TEXTURE0 + int i)),
                                   GlBindTexture (enum GL_TEXTURE_2D) h],
             gl_active_texture := enum (GL_TEXTURE0 + int i),
             gl_texture_binding_2d := (gl_texture_binding_2d s)(enum (GL_TEXTURE0 + int i) := h)\<rparr>"
  using assms
  by (simp add: glBindTexture_def glActiveTexture_def record_event_def Let_def uint_unit)

lemma BindGLTextures_for_result:
  assumes "m_textureIDs s = arr" and "m_loadedTextures s = n"
    and "n \<le> int (length arr)" and "length arr < 2 ^ 31"
    and "n \<le> int (gl_max_texture_units s)"
  shows "\<exists>s'. BindGLTextures_for i s = Inr s' \<and>
           events s' = events s @ concat (map (\<lambda>k. [GlActiveTexture (enum (GL_TEXTURE0 + int k)),
                          GlBindTexture (enum GL_TEXTURE_2D) (ID (arr ! k))]) [i..<nat n]) \<and>
           (\<forall>k. i \<le> k \<and> int k < n \<longrightarrow>
              gl_texture_binding_2d s' (enum (GL_TEXTURE0 + int k)) = ID (arr ! k)) \<and>
           (\<forall>u. (\<forall>k. i \<le> k \<and> int k < n \<longrightarrow> u \<noteq> enum (GL_TEXTURE0 + int k)) \<longrightarrow>
              gl_texture_binding_2d s' u = gl_texture_binding_2d s u)"
  using assms(1,2,5)
proof (induction "nat n - i" arbitrary: i s)
  case 0
  then have "\<not> int i < n" by simp
  then have "[i..<nat n] = []" by simp
  with \<open>\<not> int i < n\<close> 0 show ?case
    by (subst BindGLTextures_for.simps) auto
next
  case (Suc d)
  then have lt: "int i < n" by simp
  then have il: "i < length arr" "i < 2 ^ 31" "i < gl_max_texture_units s"
    using assms(3,4) Suc.prems(3) by auto
  let ?u = "enum (GL_TEXTURE0 + int i)"
  let ?s1 = "glBindTexture (enum GL_TEXTURE_2D) (ID (arr ! i)) (glActiveTexture ?u s)"
  have s1: "?s1 = s\<lparr>events := events s @ [GlActiveTexture ?u, GlBindTexture (enum GL_TEXTURE_2D) (ID (arr ! i))],
             gl_active_texture := ?u,
             gl_texture_binding_2d := (gl_texture_binding_2d s)(?u := ID (arr ! i))\<rparr>"
    using il by (simp add: bind_step)
  have f1: "m_textureIDs ?s1 = arr" "m_loadedTextures ?s1 = n"
    "n \<le> int (gl_max_texture_units ?s1)"
    using Suc.prems by (simp_all add: s1)
  have "d = nat n - Suc i" using Suc.hyps(2) by simp
  from Suc.hyps(1) [OF this f1] obtain s' where
    r: "BindGLTextures_for (Suc i) ?s1 = Inr s'"
    and ev: "events s' = events ?s1 @ concat (map (\<lambda>k. [GlActiveTexture (enum (GL_TEXTURE0 + int k)),
                          GlBindTexture (enum GL_TEXTURE_2D) (ID (arr ! k))]) [Suc i..<nat n])"
    and bound: "\<forall>k. Suc i \<le> k \<and> int k < n \<longrightarrow>
              gl_texture_binding_2d s' (enum (GL_TEXTURE0 + int k)) = ID (arr ! k)"
    and rest: "\<forall>u. (\<forall>k. Suc i \<le> k \<and> int k < n \<longrightarrow> u \<noteq> enum (GL_TEXTURE0 + int k)) \<longrightarrow>
              gl_texture_binding_2d s' u = gl_texture_binding_2d ?s1 u"
    by blast
  have run: "BindGLTextures_for i s = Inr s'"
    using lt il r Suc.prems(1,2) by (subst BindGLTextures_for.simps) simp
  have up: "[i..<nat n] = i # [Suc i..<nat n]"
    using lt by (simp add: upt_conv_Cons)
  have ev': "events s' = events s @ concat (map (\<lambda>k. [GlActiveTexture (enum (GL_TEXTURE0 + int k)),
                          GlBindTexture (enum GL_TEXTURE_2D) (ID (arr ! k))]) [i..<nat n])"
    using ev by (simp add: s1 up)
  have small: "k < 2 ^ 31" if "int k < n" for k
    using that assms(3,4) by linarith
  have other: "?u \<noteq> enum (GL_TEXTURE0 + int k)" if "Suc i \<le> k" "int k < n" for k
    using unit_inject [OF il(2) small [OF that(2)]] that(1) by auto
  have here: "gl_texture_binding_2d s' ?u = ID (arr ! i)"
    using rest [rule_format, of ?u] other by (simp add: s1)
  have bound': "\<forall>k. i \<le> k \<and> int k < n \<longrightarrow>
              gl_texture_binding_2d s' (enum (GL_TEXTURE0 + int k)) = ID (arr ! k)"
  proof (intro allI impI)
    fix k assume k: "i \<le> k \<and> int k < n"
    show "gl_texture_binding_2d s' (enum (GL_TEXTURE0 + int k)) = ID (arr ! k)"
    proof (cases "k = i")
      case True
      then show ?thesis using here by simp
    next
      case False
      then have "Suc i \<le> k" using k by simp
      then show ?thesis using bound k by simp
    qed
  qed
  have rest': "\<forall>u. (\<forall>k. i \<le> k \<and> int k < n \<longrightarrow> u \<noteq> enum (GL_TEXTURE0 + int k)) \<longrightarrow>
              gl_texture_binding_2d s' u = gl_texture_binding_2d s u"
  proof (intro allI impI)
    fix u assume u: "\<forall>k. i \<le> k \<and> int k < n \<longrightarrow> u \<noteq> enum (GL_TEXTURE0 + int k)"
    then have "u \<noteq> ?u" using lt by auto
    moreover have "\<forall>k. Suc i \<le> k \<and> int k < n \<longrightarrow> u \<noteq> enum (GL_TEXTURE0 + int k)"
      using u by auto
    ultimately show "gl_texture_binding_2d s' u = gl_texture_binding_2d s u"
      using rest by (simp add: s1)
  qed
  from run ev' bound' rest' show ?case by blast
qed

text \<open>
  C8: with \<open>N = m_loadedTextures\<close> textures loaded, the counter inside the array and at
  most as many textures as the backend has texture units, \<open>BindGLTextures\<close> returns after
  \<open>N\<close> pairs of calls, \<open>glActiveTexture(GL_TEXTURE0 + i)\<close> and
  \<open>glBindTexture(GL_TEXTURE_2D, handle i)\<close> for \<open>i = 0, ..., N - 1\<close> in this order. After
  it, unit \<open>i\<close> holds the handle of the \<open>i\<close>-th loaded texture for every \<open>i < N\<close>, and every
  other unit holds what it held before.
\<close>

theorem BindGLTextures_binds:
  assumes "registry_ok s" and "m_loadedTextures s \<le> int (gl_max_texture_units s)"
  shows "\<exists>s'. BindGLTextures s = Inr s' \<and>
           events s' = events s @ concat (map (\<lambda>i. [GlActiveTexture (enum (GL_TEXTURE0 + int i)),
                          GlBindTexture (enum GL_TEXTURE_2D) (ID (m_textureIDs s ! i))])
                        [0..<nat (m_loadedTextures s)]) \<and>
           (\<forall>i. int i < m_loadedTextures s \<longrightarrow>
              gl_texture_binding_2d s' (enum (GL_TEXTURE0 + int i)) = ID (m_textureIDs s ! i)) \<and>
           (\<forall>u. (\<forall>i. int i < m_loadedTextures s \<longrightarrow> u \<noteq> enum (GL_TEXTURE0 + int i)) \<longrightarrow>
              gl_texture_binding_2d s' u = gl_texture_binding_2d s u)"
  using BindGLTextures_for_result [of s "m_textureIDs s" "m_loadedTextures s" 0] assms
  by (simp add: BindGLTextures_def registry_ok_def)

theorem BindGLTextures_binds_witness:
  "\<exists>s'. BindGLTextures scene2 = Inr s' \<and>
         events s' = [GlActiveTexture 0x84C0, GlBindTexture 0x0DE1 1,
                      GlActiveTexture 0x84C1, GlBindTexture 0x0DE1 2] \<and>
         gl_texture_binding_2d s' 0x84C0 = 1 \<and> gl_texture_binding_2d s' 0x84C1 = 2 \<and>
         gl_texture_binding_2d s' 0x84C2 = 0"
proof -
  have ok: "registry_ok scene2" "m_loadedTextures scene2 \<le> int (gl_max_texture_units scene2)"
    by (simp_all add: registry_ok_def scene2_def scene0_def)
  have n: "m_loadedTextures scene2 = 2" "events scene2 = []"
    "ID (m_textureIDs scene2 ! 0) = 1" "ID (m_textureIDs scene2 ! 1) = 2"
    "gl_texture_binding_2d scene2 0x84C2 = 0"
    by (simp_all add: scene2_def scene0_def)
  have u: "enum (GL_TEXTURE0 + int 0) = 0x84C0" "enum (GL_TEXTURE0 + int 1) = 0x84C1"
    "enum GL_TEXTURE_2D = 0x0DE1"
    by (simp_all add: enum_def GL_TEXTURE0_def GL_TEXTURE_2D_def)
  have up: "[0..<2] = [0, Suc 0]" by (simp add: numeral_2_eq_2)
  have free: "\<forall>i. int i < 2 \<longrightarrow> (0x84C2 :: GLenum) \<noteq> enum (GL_TEXTURE0 + int i)"
    by (auto simp: less_2_cases_iff enum_def GL_TEXTURE0_def)
  from BindGLTextures_binds [OF ok] obtain s' where
    r: "BindGLTextures scene2 = Inr s'"
    and ev: "events s' = events scene2 @ concat (map (\<lambda>i. [GlActiveTexture (enum (GL_TEXTURE0 + int i)),
                          GlBindTexture (enum GL_TEXTURE_2D) (ID (m_textureIDs scene2 ! i))])
                        [0..<nat (m_loadedTextures scene2)])"
    and b: "\<forall>i. int i < m_loadedTextures scene2 \<longrightarrow>
              gl_texture_binding_2d s' (enum (GL_TEXTURE0 + int i)) = ID (m_textureIDs scene2 ! i)"
    and o: "\<forall>u. (\<forall>i. int i < m_loadedTextures scene2 \<longrightarrow> u \<noteq> enum (GL_TEXTURE0 + int i)) \<longrightarrow>
              gl_texture_binding_2d s' u = gl_texture_binding_2d scene2 u"
    by blast
  have "events s' = [GlActiveTexture 0x84C0, GlBindTexture 0x0DE1 1,
                      GlActiveTexture 0x84C1, GlBindTexture 0x0DE1 2]"
    using ev u n by (simp add: up)
  moreover have "gl_texture_binding_2d s' 0x84C0 = 1"
    using b [rule_format, of 0] n u by simp
  moreover have "gl_texture_binding_2d s' 0x84C1 = 2"
    using b [rule_format, of 1] n u by simp
  moreover have "gl_texture_binding_2d s' 0x84C2 = 0"
    using o [rule_format, of "0x84C2"] free n by simp
  ultimately show ?thesis using r by blast
qed

subsection \<open>DestroyGLTextures\<close>

text \<open>
  C4: the claim asks for a delete of every registered handle. In the scene with the
  handles 1 and 2 loaded \<open>DestroyGLTextures\<close> makes two calls of \<open>glGenTextures\<close> and no
  other call: the context hands out the new names 3 and 4, which replace the handles in
  the array, the counter stays at 2, and the textures 1 and 2 are not deleted.
\<close>

theorem DestroyGLTextures_generates:
  "\<exists>s'. DestroyGLTextures scene2 = Inr s' \<and>
         events s' = [GlGenTextures 1 3, GlGenTextures 1 4] \<and>
         GlDeleteTextures 1 1 \<notin> set (events s') \<and> GlDeleteTextures 1 2 \<notin> set (events s') \<and>
         ID (m_textureIDs s' ! 0) = 3 \<and> ID (m_textureIDs s' ! 1) = 4 \<and>
         m_loadedTextures s' = 2"
  by (simp add: DestroyGLTextures_def DestroyGLTextures_for.simps scene2_def scene0_def
      glGenTextures_def record_event_def Let_def)

subsection \<open>SetShaderMaterial\<close>

text \<open>
  C2: the claim asks that a tag that is not found leaves the material uniforms as they
  are. With the one material wood defined, \<open>SetShaderMaterial\<close> for wood writes wood's
  values; \<open>SetShaderMaterial\<close> for glass, which is not defined, then overwrites the three
  uniforms with the contents of its uninitialised local (zeros here), because
  \<open>FindMaterial\<close> returns true.
\<close>

theorem SetShaderMaterial_miss_overwrites:
  "\<exists>s1 s2.
     SetShaderMaterial blank ''wood'' (scene0\<lparr>m_objectMaterials := [wood]\<rparr>) = Inr s1 \<and>
     shaders s1 0 ''material.diffuseColor'' = Some (Vec3Value (Vec3 0.6 0.3 0.1)) \<and>
     shaders s1 0 ''material.specularColor'' = Some (Vec3Value (Vec3 0.2 0.2 0.2)) \<and>
     shaders s1 0 ''material.shininess'' = Some (FloatValue 10) \<and>
     find (\<lambda>e. OBJECT_MATERIAL.tag e = ''glass'') (m_objectMaterials s1) = None \<and>
     SetShaderMaterial blank ''glass'' s1 = Inr s2 \<and>
     shaders s2 0 ''material.diffuseColor'' = Some (Vec3Value (Vec3 0 0 0)) \<and>
     shaders s2 0 ''material.specularColor'' = Some (Vec3Value (Vec3 0 0 0)) \<and>
     shaders s2 0 ''material.shininess'' = Some (FloatValue 0)"
  by (simp add: SetShaderMaterial_def FindMaterial_find Let_def arrow_def setVec3Value_def
      setFloatValue_def setUniform_def scene0_def wood_def blank_def)

end
